theory Spec2Isabelle
  imports Complex_Main
begin

section \<open>Python values and errors\<close>

text \<open>
  Every exception the adapters can raise is a value. \<open>KeyError\<close> is what a failed
  dictionary lookup raises; it is the code's form of the specification's
  \<open>UnknownLabelError\<close>. The last two errors belong to the converter module.
\<close>

datatype error =
    ZeroDivisionError
  | ValueError
  | IndexError
  | KeyError
  | MalformedSegmentationError
  | MalformedInputError

datatype warning = IrregularSamplingWarning

text \<open>
  Results of \<open>np.mean\<close>, \<open>np.std\<close> and of a division of float64 scalars: numpy never
  raises there, it returns nan for an empty slice and an infinity for a division by zero.
  Finite values are idealised as reals.
\<close>

datatype np_float = Finite real | Infinite | NaN

section \<open>Label taxonomy tables\<close>

text \<open>
  The class ids \<open>nslr_hmm.FIXATION\<close>, ... are constants of the backend package; they are
  a parameter of the model.
\<close>

record nslr_ids =
  FIXATION :: int
  SACCADE :: int
  SMOOTH_PURSUIT :: int
  PSO :: int

text \<open>
  The three module-level dictionaries are mutable objects of the module; they are the
  state every call runs in. A dictionary literal is a chain of updates: a later entry
  with the same key wins. A key of the first table is an int or Python's \<open>None\<close>.
\<close>

record module_state =
  CLASSES :: "int option \<rightharpoonup> string"
  REMODNAV_CLASSES :: "string \<rightharpoonup> string"
  REMODNAV_SIMPLE :: "string \<rightharpoonup> string"

definition module_init :: "nslr_ids \<Rightarrow> module_state" where
  "module_init ids =
     \<lparr> CLASSES = [Some (FIXATION ids) \<mapsto> ''Fixation'',
                   Some (SACCADE ids) \<mapsto> ''Saccade'',
                   Some (SMOOTH_PURSUIT ids) \<mapsto> ''Smooth Pursuit'',
                   Some (PSO ids) \<mapsto> ''PSO'',
                   None \<mapsto> ''None''],
       REMODNAV_CLASSES = [''FIXA'' \<mapsto> ''Fixation'', ''SACC'' \<mapsto> ''Saccade'',
                           ''ISAC'' \<mapsto> ''ISaccade'', ''PURS'' \<mapsto> ''Smooth Pursuit'',
                           ''HPSO'' \<mapsto> ''High-Velocity PSO'',
                           ''LPSO'' \<mapsto> ''Low-Velocity PSO'',
                           ''IHPS'' \<mapsto> ''High-Velocity PSO (NCB)'',
                           ''ILPS'' \<mapsto> ''Low-Velocity PSO (NCB)''],
       REMODNAV_SIMPLE = [''FIXA'' \<mapsto> ''Fixation'', ''SACC'' \<mapsto> ''Saccade'',
                          ''ISAC'' \<mapsto> ''Saccade'', ''PURS'' \<mapsto> ''Smooth Pursuit'',
                          ''HPSO'' \<mapsto> ''PSO'', ''LPSO'' \<mapsto> ''PSO'',
                          ''IHPS'' \<mapsto> ''PSO'', ''ILPS'' \<mapsto> ''PSO''] \<rparr>"

definition remodnav_codes :: "string set" where
  "remodnav_codes =
     {''FIXA'', ''SACC'', ''ISAC'', ''PURS'', ''HPSO'', ''LPSO'', ''IHPS'', ''ILPS''}"

definition base_categories :: "string set" where
  "base_categories = {''Fixation'', ''Saccade'', ''Smooth Pursuit'', ''PSO''}"

section \<open>Resolving the time argument\<close>

text \<open>
  \<open>time\<close> is either an iterable of sampling times or a scalar sampling rate
  (\<open>hasattr(time, '__iter__')\<close>).
\<close>

datatype time_arg = TimeVector "real list" | SamplingRate real

text \<open>
  \<open>np.arange(start, stop, step)\<close> has \<open>ceil((stop - start) / step)\<close> elements (none when
  that is not positive), element \<open>i\<close> being \<open>start + i * step\<close>.
\<close>

definition np_arange :: "real \<Rightarrow> real \<Rightarrow> real \<Rightarrow> real list" where
  "np_arange start stop step =
     map (\<lambda>i. start + real i * step) [0 ..< nat \<lceil>(stop - start) / step\<rceil>]"

text \<open>
  \<open>np.array(time) if hasattr(time, '__iter__') else np.arange(0, len(x), 1/time)\<close>;
  \<open>1/time\<close> raises for a zero rate.
\<close>

definition time_array :: "time_arg \<Rightarrow> nat \<Rightarrow> error + real list" where
  "time_array time len_x =
     (case time of
        TimeVector ts \<Rightarrow> Inr ts
      | SamplingRate r \<Rightarrow>
          if r = 0 then Inl ZeroDivisionError
          else Inr (np_arange 0 (real len_x) (1 / r)))"

subsection \<open>numpy helpers used by the interval-based adapter\<close>

text \<open>\<open>times[1:] - times[:-1]\<close>\<close>

definition np_diff :: "real list \<Rightarrow> real list" where
  "np_diff ts = map2 (\<lambda>a b. a - b) (tl ts) (butlast ts)"

fun np_mean :: "real list \<Rightarrow> np_float" where
  "np_mean [] = NaN"
| "np_mean xs = Finite (sum_list xs / real (length xs))"

text \<open>\<open>np.std\<close>: the square root of the mean squared deviation from the mean.\<close>

fun np_std :: "real list \<Rightarrow> np_float" where
  "np_std [] = NaN"
| "np_std xs =
     (let m = sum_list xs / real (length xs)
      in Finite (sqrt (sum_list (map (\<lambda>v. (v - m)\<^sup>2) xs) / real (length xs))))"

text \<open>\<open>a > c\<close> for a float64 \<open>a\<close>: false for nan.\<close>

fun np_gt :: "np_float \<Rightarrow> real \<Rightarrow> bool" where
  "np_gt (Finite v) c = (v > c)"
| "np_gt Infinite c = True"
| "np_gt NaN c = False"

text \<open>\<open>1 / a\<close> for a float64 \<open>a\<close>: an infinity for zero, never an exception.\<close>

fun np_recip :: "np_float \<Rightarrow> np_float" where
  "np_recip (Finite v) = (if v = 0 then Infinite else Finite (1 / v))"
| "np_recip Infinite = Finite 0"
| "np_recip NaN = NaN"

section \<open>Segment representation converter\<close>

text \<open>
  Breakpoint positions are sample indices or time values.
\<close>

datatype breakpoints = Indices "nat list" | Times "real list"

datatype position_mode = AsIndex | AsTime

text \<open>
  The label in force at position \<open>p\<close>: that of the last breakpoint at or before \<open>p\<close>,
  Python's \<open>None\<close> before the first breakpoint.
\<close>

fun label_at :: "'l option \<Rightarrow> ('p::linorder \<times> 'l option) list \<Rightarrow> 'p \<Rightarrow> 'l option" where
  "label_at cur [] p = cur"
| "label_at cur ((b, l) # rest) p = (if b \<le> p then label_at l rest p else cur)"

text \<open>
  Modelled from the spec: \<open>discrete_to_continuous\<close> of the module \<open>utils\<close>, which is not
  among the sources. Each breakpoint's label covers the samples from its position up to the
  next breakpoint, the last one to the end of the time vector; breakpoints must be strictly
  increasing and parallel to the labels. The returned positions are the time vector itself.
  A label is a Python value, so it may be \<open>None\<close>.
\<close>

definition discrete_to_continuous ::
  "real list \<Rightarrow> breakpoints \<Rightarrow> 'l option list \<Rightarrow> error + (real list \<times> 'l option list)" where
  "discrete_to_continuous time_vector bps labels =
     (case bps of
        Times bs \<Rightarrow>
          if length bs \<noteq> length labels \<or> \<not> sorted_wrt (<) bs
          then Inl MalformedSegmentationError
          else Inr (time_vector, map (label_at None (zip bs labels)) time_vector)
      | Indices bs \<Rightarrow>
          if length bs \<noteq> length labels \<or> \<not> sorted_wrt (<) bs
          then Inl MalformedSegmentationError
          else Inr (time_vector,
                    map (label_at None (zip bs labels)) [0 ..< length time_vector]))"

text \<open>
  One breakpoint each time the label differs from the previous sample's.
\<close>

fun changes :: "'l \<Rightarrow> ('p \<times> 'l) list \<Rightarrow> ('p \<times> 'l) list" where
  "changes prev [] = []"
| "changes prev ((p, l) # rest) =
     (if l \<noteq> prev then (p, l) # changes l rest else changes l rest)"

text \<open>The first sample always starts a segment.\<close>

fun scan :: "('p \<times> 'l) list \<Rightarrow> ('p \<times> 'l) list" where
  "scan [] = []"
| "scan ((p, l) # rest) = (p, l) # changes l rest"

text \<open>
  Modelled from the spec: \<open>continuous_to_discrete\<close> of the module \<open>utils\<close>, which is not
  among the sources. It scans the per-sample labels and reports each breakpoint as the
  sample's index or time, as the mode asks; arrays of different lengths are malformed
  input.
\<close>

definition continuous_to_discrete ::
  "real list \<Rightarrow> 'l list \<Rightarrow> position_mode \<Rightarrow> error + (breakpoints \<times> 'l list)" where
  "continuous_to_discrete time_vector continuous_labels mode =
     (if length time_vector \<noteq> length continuous_labels then Inl MalformedInputError
      else case mode of
        AsTime \<Rightarrow>
          (let segs = scan (zip time_vector continuous_labels)
           in Inr (Times (map fst segs), map snd segs))
      | AsIndex \<Rightarrow>
          (let segs = scan (zip [0 ..< length continuous_labels] continuous_labels)
           in Inr (Indices (map fst segs), map snd segs)))"

section \<open>Classification adapters\<close>

text \<open>\<open>[d[k] for k in ks]\<close>: the first missing key raises \<open>KeyError\<close>.\<close>

fun lookup_all :: "('k \<rightharpoonup> 'v) \<Rightarrow> 'k list \<Rightarrow> error + 'v list" where
  "lookup_all d [] = Inr []"
| "lookup_all d (k # ks) =
     (case d k of
        None \<Rightarrow> Inl KeyError
      | Some v \<Rightarrow> (case lookup_all d ks of Inl e \<Rightarrow> Inl e | Inr vs \<Rightarrow> Inr (v # vs)))"

subsection \<open>The index-based backend (NSLR-HMM)\<close>

text \<open>
  A backend segment exposes the pair \<open>t\<close>, of which the adapter reads \<open>t[0]\<close>; the
  segmentation object exposes the list \<open>segments\<close>. The backend is a parameter: a function
  from the time array and the gaze array to the per-sample ids, the segmentation and the
  per-segment ids. An id is an int or \<open>None\<close>.
\<close>

datatype nslr_segment = Segment (seg_t: "real \<times> real")

datatype segmentation = Segmentation (segments: "nslr_segment list")

text \<open>
  The sample index at which a backend segment starts: the position, in the time array, of
  the sample taken at the segment's start time.
\<close>

definition start_index :: "real list \<Rightarrow> nslr_segment \<Rightarrow> nat" where
  "start_index time_arr s = length (takeWhile (\<lambda>t. t \<noteq> fst (seg_t s)) time_arr)"


type_synonym nslr_backend =
  "real list \<Rightarrow> (real \<times> real) list \<Rightarrow> int option list \<times> segmentation \<times> int option list"

text \<open>
  The call returns the tuple \<open>(segments, classes)\<close>, with the backend's three artifacts
  as a third component when \<open>return_orig_output\<close> is set.
\<close>

type_synonym nslr_output =
  "real list \<times> string list \<times> (int option list \<times> segmentation \<times> int option list) option"

text \<open>
  \<open>classify_nslr_hmm\<close>, statement by statement: \<open>np.vstack([x, y]).T\<close> raises
  \<open>ValueError\<close> for arrays of different lengths; the time array is resolved; the backend
  is called; the breakpoints are \<open>[s.t[0] for s in seg.segments]\<close> and the classes the
  per-segment ids; unless \<open>return_discrete\<close> is set both go through
  \<open>discrete_to_continuous\<close>; then every class is looked up in \<open>CLASSES\<close>. The
  function reads the module state and returns it as it found it.
\<close>

definition classify_nslr_hmm ::
  "nslr_backend \<Rightarrow> real list \<Rightarrow> real list \<Rightarrow> time_arg \<Rightarrow> bool \<Rightarrow> bool \<Rightarrow> module_state
     \<Rightarrow> (error + nslr_output) \<times> module_state" where
  "classify_nslr_hmm classify_gaze x y time return_discrete return_orig_output \<sigma> =
     ((if length x \<noteq> length y then Inl ValueError
       else case time_array time (length x) of
         Inl e \<Rightarrow> Inl e
       | Inr time_arr \<Rightarrow>
          (case classify_gaze time_arr (zip x y) of
             (sample_class, seg, seg_class) \<Rightarrow>
               (let segs = map (\<lambda>s. fst (seg_t s)) (segments seg);
                    classes = seg_class
                in case (if \<not> return_discrete
                         then discrete_to_continuous time_arr (Times segs) classes
                         else Inr (segs, classes)) of
                     Inl e \<Rightarrow> Inl e
                   | Inr (segs', classes') \<Rightarrow>
                       (case lookup_all (CLASSES \<sigma>) classes' of
                          Inl e \<Rightarrow> Inl e
                        | Inr names \<Rightarrow>
                            Inr (segs', names,
                                 if return_orig_output
                                 then Some (sample_class, seg, seg_class) else None))))),
      \<sigma>)"

subsection \<open>The interval-based backend (REMoDNaV)\<close>

record event =
  start_time :: real
  end_time :: real
  label :: string

text \<open>
  The backend is a parameter: constructing the classifier with the pixel-to-degree ratio
  and the sampling rate, preprocessing the data and running it yields the events.
\<close>

type_synonym remodnav_backend =
  "real \<Rightarrow> np_float \<Rightarrow> (real \<times> real) list \<Rightarrow> event list"

text \<open>
  The loop over \<open>range(len(events))\<close> adds \<open>times[0]\<close> to both times of each event;
  \<open>times[0]\<close> is read only when there is an event, and raises on an empty array.
\<close>

definition realign :: "real list \<Rightarrow> event list \<Rightarrow> error + event list" where
  "realign time_arr events =
     (if events = [] then Inr []
      else case time_arr of
        [] \<Rightarrow> Inl IndexError
      | t0 # _ \<Rightarrow>
          Inr (map (\<lambda>ev. ev\<lparr>start_time := start_time ev + t0,
                             end_time := end_time ev + t0\<rparr>) events))"

text \<open>\<open>[(ev["start_time"], class_dict[ev["label"]]) for ev in events]\<close>\<close>

fun extract_pairs :: "(string \<rightharpoonup> string) \<Rightarrow> event list \<Rightarrow> error + (real \<times> string) list" where
  "extract_pairs class_dict [] = Inr []"
| "extract_pairs class_dict (ev # evs) =
     (case class_dict (label ev) of
        None \<Rightarrow> Inl KeyError
      | Some c \<Rightarrow>
          (case extract_pairs class_dict evs of
             Inl e \<Rightarrow> Inl e
           | Inr ps \<Rightarrow> Inr ((start_time ev, c) # ps)))"

text \<open>
  \<open>segments, classes = zip(*pairs)\<close>: with no pair, \<open>zip()\<close> yields nothing and unpacking
  into two names raises \<open>ValueError\<close>.
\<close>

definition unzip_pairs :: "('a \<times> 'b) list \<Rightarrow> error + ('a list \<times> 'b list)" where
  "unzip_pairs ps = (if ps = [] then Inl ValueError else Inr (map fst ps, map snd ps))"

text \<open>
  What a call does besides returning: the warnings it emits and the arguments it
  constructs the backend classifier with.
\<close>

record remodnav_outcome =
  warnings :: "warning list"
  clf_calls :: "(real \<times> np_float) list"
  result :: "error + (real list \<times> string option list \<times> event list option)"

text \<open>
  \<open>classify_remodnav\<close>, statement by statement: the time array is resolved; the warning
  is emitted when \<open>np.std\<close> of the differences exceeds \<open>1e-5\<close>; the sampling rate is 1
  over their \<open>np.mean\<close>; \<open>np.core.records.fromarrays\<close> raises \<open>ValueError\<close> for arrays of
  different lengths; the classifier is constructed and run; the events are shifted in
  place; the start times and the mapped labels are extracted and unzipped; unless
  \<open>return_discrete\<close> is set both go through \<open>discrete_to_continuous\<close>. A returned class
  is a string, or Python's \<open>None\<close> for a sample before the first breakpoint. The events
  returned with \<open>return_orig_output\<close> are the shifted ones.
\<close>

definition classify_remodnav ::
  "remodnav_backend \<Rightarrow> real list \<Rightarrow> real list \<Rightarrow> time_arg \<Rightarrow> real \<Rightarrow> bool \<Rightarrow> bool \<Rightarrow> bool
     \<Rightarrow> module_state \<Rightarrow> remodnav_outcome \<times> module_state" where
  "classify_remodnav clf x y time px2deg return_discrete return_orig_output simple_output \<sigma> =
     ((case time_array time (length x) of
         Inl e \<Rightarrow> \<lparr>warnings = [], clf_calls = [], result = Inl e\<rparr>
       | Inr time_arr \<Rightarrow>
          (let ws = (if np_gt (np_std (np_diff time_arr)) (1 / 100000)
                     then [IrregularSamplingWarning] else []);
               sampling_rate = np_recip (np_mean (np_diff time_arr))
           in if length x \<noteq> length y
              then \<lparr>warnings = ws, clf_calls = [], result = Inl ValueError\<rparr>
              else
                \<lparr>warnings = ws,
                 clf_calls = [(px2deg, sampling_rate)],
                 result =
                   (case realign time_arr (clf px2deg sampling_rate (zip x y)) of
                      Inl e \<Rightarrow> Inl e
                    | Inr events \<Rightarrow>
                       (case extract_pairs (if simple_output then REMODNAV_SIMPLE \<sigma>
                                      else REMODNAV_CLASSES \<sigma>) events of
                          Inl e \<Rightarrow> Inl e
                        | Inr pairs \<Rightarrow>
                           (case unzip_pairs pairs of
                              Inl e \<Rightarrow> Inl e
                            | Inr (segs, classes) \<Rightarrow>
                               (case (if \<not> return_discrete
                                      then discrete_to_continuous time_arr (Times segs)
                                             (map Some classes)
                                      else Inr (segs, map Some classes)) of
                                  Inl e \<Rightarrow> Inl e
                                | Inr (segs', classes') \<Rightarrow>
                                    Inr (segs', classes',
                                         if return_orig_output then Some events
                                         else None)))))\<rparr>)),
      \<sigma>)"

subsection \<open>The interval-based adapter and the backend's event objects\<close>







section \<open>Example inputs\<close>

text \<open>Four distinct class ids.\<close>

definition example_ids :: nslr_ids where
  "example_ids = \<lparr>FIXATION = 1, SACCADE = 2, SMOOTH_PURSUIT = 4, PSO = 3\<rparr>"

text \<open>A backend that reports one fixation starting at its local time 0.\<close>

definition one_fixation_backend :: remodnav_backend where
  "one_fixation_backend px2deg sampling_rate data =
     [\<lparr>start_time = 0, end_time = 1/5, label = ''FIXA''\<rparr>]"

text \<open>A backend that finds no event.\<close>

definition no_event_backend :: remodnav_backend where
  "no_event_backend px2deg sampling_rate data = []"

text \<open>
  An index-based backend that finds a fixation from time 0 and a saccade from time 1.
\<close>

definition two_segment_backend :: nslr_backend where
  "two_segment_backend time_arr gaze =
     ([Some 1, Some 1, Some 2],
      Segmentation [Segment (0, 1), Segment (1, 1)],
      [Some 1, Some 2])"

text \<open>
  An index-based backend whose second segment, starting at time 1/2, carries the class
  id 99, which no table knows.
\<close>

definition dropped_label_backend :: nslr_backend where
  "dropped_label_backend time_arr gaze =
     ([Some 1, Some 2],
      Segmentation [Segment (0, 1/2), Segment (1/2, 1), Segment (1, 1)],
      [Some 1, Some 99, Some 2])"

text \<open>An interval-based backend that reports an event with a code no table knows.\<close>

definition unknown_code_backend :: remodnav_backend where
  "unknown_code_backend px2deg sampling_rate data =
     [\<lparr>start_time = 0, end_time = 1/5, label = ''BLNK''\<rparr>]"

text \<open>
  An index-based backend over a recording that starts at time 10: a fixation from time 10
  and a saccade from time 11.
\<close>

definition offset_time_backend :: nslr_backend where
  "offset_time_backend time_arr gaze =
     ([Some 1, Some 1, Some 2],
      Segmentation [Segment (10, 11), Segment (11, 11)],
      [Some 1, Some 2])"




section \<open>Sequences of calls\<close>






section \<open>Properties\<close>

subsection \<open>Facts about the converter\<close>

lemma set_changes: "set (changes prev zs) \<subseteq> set zs"
proof (induction zs arbitrary: prev)
  case Nil
  then show ?case by simp
next
  case (Cons z zs)
  obtain p l where "z = (p, l)" by (cases z)
  then show ?case using Cons [of l] by auto
qed

lemma distinct_adj_changes: "distinct_adj (prev # map snd (changes prev zs))"
  by (induction zs arbitrary: prev) auto

lemma distinct_adj_scan: "distinct_adj (map snd (scan zs))"
proof (cases zs)
  case Nil
  then show ?thesis by simp
next
  case (Cons z rest)
  obtain p l where "z = (p, l)" by (cases z)
  with Cons show ?thesis using distinct_adj_changes [of l rest] by simp
qed

lemma sorted_changes:
  "sorted_wrt (<) (map fst zs) \<Longrightarrow> sorted_wrt (<) (map fst (changes prev zs))"
proof (induction zs arbitrary: prev)
  case Nil
  then show ?case by simp
next
  case (Cons z zs)
  then show ?case using set_changes [of "snd z" zs] by (cases z) auto
qed

lemma sorted_scan:
  "sorted_wrt (<) (map fst zs) \<Longrightarrow> sorted_wrt (<) (map fst (scan zs))"
proof (cases zs)
  case Nil
  then show ?thesis by simp
next
  case (Cons z rest)
  assume s: "sorted_wrt (<) (map fst zs)"
  obtain p l where z: "z = (p, l)" by (cases z)
  from s Cons have "sorted_wrt (<) (map fst (changes l rest))"
    by (simp add: sorted_changes)
  moreover from s Cons z have "\<forall>q \<in> set (changes l rest). p < fst q"
    using set_changes [of l rest] by auto
  ultimately show ?thesis using Cons z by simp
qed

lemma label_at_before:
  "\<forall>q \<in> set bs. p < fst q \<Longrightarrow> label_at cur bs p = cur"
  by (cases bs) auto

lemma label_at_changes:
  "sorted_wrt (<) (map fst zs) \<Longrightarrow> (p, l) \<in> set zs \<Longrightarrow> label_at prev (changes prev zs) p = l"
proof (induction zs arbitrary: prev)
  case Nil
  then show ?case by simp
next
  case (Cons z zs)
  obtain q m where z: "z = (q, m)" by (cases z)
  from Cons.prems z have later: "\<forall>r \<in> set zs. q < fst r" and srt: "sorted_wrt (<) (map fst zs)"
    by auto
  have later': "\<forall>r \<in> set (changes m zs). q < fst r"
    using later set_changes [of m zs] by auto
  show ?case
  proof (cases "(p, l) = (q, m)")
    case True
    then show ?thesis using z later' label_at_before [of "changes m zs" q] by auto
  next
    case False
    with Cons.prems z have mem: "(p, l) \<in> set zs" by auto
    with later have "q \<le> p" by fastforce
    moreover have "label_at m (changes m zs) p = l"
      using Cons.IH [OF srt mem] .
    ultimately show ?thesis using z by auto
  qed
qed


lemma label_at_scan:
  assumes "sorted_wrt (<) (map fst zs)" and "(p, l) \<in> set zs"
  shows "label_at None (scan zs) p = l"
proof (cases zs)
  case Nil
  with assms show ?thesis by simp
next
  case (Cons z rest)
  obtain q m where z: "z = (q, m)" by (cases z)
  from assms Cons z have later: "\<forall>r \<in> set rest. q < fst r"
    and srt: "sorted_wrt (<) (map fst rest)" by auto
  have later': "\<forall>r \<in> set (changes m rest). q < fst r"
    using later set_changes [of m rest] by auto
  show ?thesis
  proof (cases "(p, l) = (q, m)")
    case True
    then show ?thesis using Cons z label_at_before [OF later', of m] by simp
  next
    case False
    with assms Cons z have mem: "(p, l) \<in> set rest" by auto
    with later have "q \<le> p" by fastforce
    then show ?thesis using Cons z label_at_changes [OF srt mem, of m] by simp
  qed
qed

lemma scan_reproduces:
  assumes "length ps = length L" and "sorted_wrt (<) ps"
  shows "map (label_at None (scan (zip ps L))) ps = L"
proof (rule nth_equalityI)
  show "length (map (label_at None (scan (zip ps L))) ps) = length L"
    using assms by simp
next
  fix i assume "i < length (map (label_at None (scan (zip ps L))) ps)"
  then have i: "i < length ps" by simp
  with assms have mem: "(ps ! i, L ! i) \<in> set (zip ps L)"
    by (auto simp: set_zip)
  have srt: "sorted_wrt (<) (map fst (zip ps L))"
    using assms by simp
  show "map (label_at None (scan (zip ps L))) ps ! i = L ! i"
    using i label_at_scan [OF srt mem] by simp
qed

subsection \<open>Label tables\<close>


text \<open>
  C6. The eight REMoDNaV codes are exactly the keys of the full and of the simplified
  table, each code has exactly one label in each, the simplified labels all lie in the
  four base categories (ISAC collapses to Saccade, the four PSO variants to PSO), and each
  class id of the index-based backend has exactly one label in its table.
\<close>

theorem label_mapping_complete:
  "dom (REMODNAV_CLASSES (module_init ids)) = remodnav_codes
   \<and> dom (REMODNAV_SIMPLE (module_init ids)) = remodnav_codes
   \<and> (\<forall>c \<in> remodnav_codes. (\<exists>!l. REMODNAV_CLASSES (module_init ids) c = Some l)
                           \<and> (\<exists>!l. REMODNAV_SIMPLE (module_init ids) c = Some l))
   \<and> ran (REMODNAV_SIMPLE (module_init ids)) \<subseteq> base_categories
   \<and> REMODNAV_SIMPLE (module_init ids) ''ISAC'' = REMODNAV_SIMPLE (module_init ids) ''SACC''
   \<and> (\<forall>c \<in> {''HPSO'', ''LPSO'', ''IHPS'', ''ILPS''}.
         REMODNAV_SIMPLE (module_init ids) c = Some ''PSO'')
   \<and> (\<forall>k \<in> {FIXATION ids, SACCADE ids, SMOOTH_PURSUIT ids, PSO ids}.
         \<exists>!l. CLASSES (module_init ids) (Some k) = Some l)"
  by (auto simp: module_init_def remodnav_codes_def base_categories_def ran_def)

theorem label_mapping_complete_witness:
  "''ISAC'' \<in> remodnav_codes
   \<and> REMODNAV_CLASSES (module_init \<lparr>FIXATION = 1, SACCADE = 2, SMOOTH_PURSUIT = 4, PSO = 3\<rparr>)
         ''ISAC'' = Some ''ISaccade''
   \<and> REMODNAV_SIMPLE (module_init \<lparr>FIXATION = 1, SACCADE = 2, SMOOTH_PURSUIT = 4, PSO = 3\<rparr>)
         ''ISAC'' = Some ''Saccade''
   \<and> ''Saccade'' \<in> base_categories
   \<and> CLASSES (module_init \<lparr>FIXATION = 1, SACCADE = 2, SMOOTH_PURSUIT = 4, PSO = 3\<rparr>)
         (Some 4) = Some ''Smooth Pursuit''"
  using label_mapping_complete
          [of "\<lparr>FIXATION = 1, SACCADE = 2, SMOOTH_PURSUIT = 4, PSO = 3\<rparr>"]
  by (simp add: module_init_def remodnav_codes_def base_categories_def)

subsection \<open>Time vector synthesis\<close>

lemma upt_10: "[0 ..< 10] = [0, 1, 2, 3, 4, 5, 6, 7, 8, 9 :: nat]"
  by (simp add: upt_rec)

lemma time_array_rate:
  "r \<noteq> 0 \<Longrightarrow>
     time_array (SamplingRate r) n = Inr (map (\<lambda>k. real k / r) [0 ..< nat \<lceil>real n * r\<rceil>])"
  by (simp add: time_array_def np_arange_def)

text \<open>
  C1. For the scalar rate 2 and five samples the claim expects the five times
  \<open>[0, 0.5, 1, 1.5, 2]\<close>. The code calls \<open>np.arange(0, len(x), 1/time)\<close>, whose stop value is
  the number of samples and not the duration, and synthesizes ten times, up to 4.5.
\<close>

theorem scalar_rate_2_len_5:
  "time_array (SamplingRate 2) 5 = Inr [0, 1/2, 1, 3/2, 2, 5/2, 3, 7/2, 4, 9/2]
   \<and> time_array (SamplingRate 2) 5 \<noteq> Inr [0, 1/2, 1, 3/2, 2]"
  by (simp add: time_array_def np_arange_def upt_10)

subsection \<open>Conversion between the two representations\<close>

text \<open>
  C5, as stated, fails for a time vector that repeats a sampling time at which the label
  changes and breakpoints reported as times: the two breakpoints share their position,
  which \<open>discrete_to_continuous\<close> rejects.
\<close>

theorem round_trip_repeated_time:
  "continuous_to_discrete [0, 0] [Some ''a'', Some ''b''] AsTime
     = Inr (Times [0, 0], [Some ''a'', Some ''b''])
   \<and> discrete_to_continuous [0, 0] (Times [0, 0]) [Some ''a'', Some ''b'']
     = Inl MalformedSegmentationError"
  by (simp add: continuous_to_discrete_def discrete_to_continuous_def)

text \<open>
  C5, amended. For a continuous labeling \<open>L\<close> and a strictly increasing time vector of the
  same length, \<open>continuous_to_discrete\<close> returns breakpoints and labels from which
  \<open>discrete_to_continuous\<close>, over the same time vector, reproduces \<open>L\<close> exactly. When the
  breakpoints are reported as indices this holds for every time vector of the same length.
\<close>

theorem round_trip:
  assumes "length time_vector = length L"
    and "mode = AsTime \<longrightarrow> sorted_wrt (<) time_vector"
  shows "\<exists>bps labels.
           continuous_to_discrete time_vector L mode = Inr (bps, labels)
           \<and> discrete_to_continuous time_vector bps labels = Inr (time_vector, L)"
proof (cases mode)
  case AsTime
  with assms have srt: "sorted_wrt (<) time_vector" by simp
  then have "sorted_wrt (<) (map fst (scan (zip time_vector L)))"
    using assms(1) by (intro sorted_scan) simp
  then show ?thesis
    using AsTime assms(1) scan_reproduces [OF assms(1) srt]
    by (simp add: continuous_to_discrete_def discrete_to_continuous_def zip_map_fst_snd Let_def)
next
  case AsIndex
  have len: "length [0 ..< length L] = length L" by simp
  have srt: "sorted_wrt (<) [0 ..< length L]" by (rule sorted_wrt_upt)
  have "sorted_wrt (<) (map fst (scan (zip [0 ..< length L] L)))"
    using srt by (intro sorted_scan) simp
  then show ?thesis
    using AsIndex assms(1) scan_reproduces [OF len srt]
    by (simp add: continuous_to_discrete_def discrete_to_continuous_def zip_map_fst_snd Let_def)
qed

theorem round_trip_witness:
  "length [0, 1/2, 1, 3/2 :: real] = length [Some ''a'', Some ''a'', None, Some ''b'']
   \<and> sorted_wrt (<) [0, 1/2, 1, 3/2 :: real]
   \<and> continuous_to_discrete [0, 1/2, 1, 3/2] [Some ''a'', Some ''a'', None, Some ''b''] AsTime
       = Inr (Times [0, 1, 3/2], [Some ''a'', None, Some ''b''])
   \<and> discrete_to_continuous [0, 1/2, 1, 3/2] (Times [0, 1, 3/2]) [Some ''a'', None, Some ''b'']
       = Inr ([0, 1/2, 1, 3/2], [Some ''a'', Some ''a'', None, Some ''b''])"
  using round_trip [of "[0, 1/2, 1, 3/2]" "[Some ''a'', Some ''a'', None, Some ''b'']" AsTime]
  by (simp add: continuous_to_discrete_def)

text \<open>
  C7. \<open>continuous_to_discrete\<close> returns for every time vector and labeling of the same
  length, and whatever it returns has no two consecutive breakpoints with equal labels.
\<close>

theorem no_redundant_breakpoints:
  "(length time_vector = length L \<longrightarrow>
      (\<exists>bps labels. continuous_to_discrete time_vector L mode = Inr (bps, labels)))
   \<and> (\<forall>bps labels. continuous_to_discrete time_vector L mode = Inr (bps, labels) \<longrightarrow>
         (\<forall>i. Suc i < length labels \<longrightarrow> labels ! i \<noteq> labels ! Suc i))"
proof -
  have "distinct_adj (map snd (scan (zip time_vector L)))"
    and "distinct_adj (map snd (scan (zip [0 ..< length L] L)))"
    by (rule distinct_adj_scan)+
  then show ?thesis
    by (cases mode)
       (auto simp: continuous_to_discrete_def distinct_adj_conv_nth Let_def split: if_splits)
qed

theorem no_redundant_breakpoints_witness:
  "continuous_to_discrete [0, 1/2, 1, 3/2] [''F'', ''F'', ''S'', ''F''] AsTime
     = Inr (Times [0, 1, 3/2], [''F'', ''S'', ''F''])
   \<and> [''F'', ''S'', ''F''] ! 0 \<noteq> [''F'', ''S'', ''F''] ! Suc 0"
  using no_redundant_breakpoints
          [of "[0, 1/2, 1, 3/2]" "[''F'', ''F'', ''S'', ''F'']" AsTime]
  by (simp add: continuous_to_discrete_def)

subsection \<open>Facts about the adapters\<close>

lemma lookup_all_KeyError:
  "\<exists>k \<in> set ks. d k = None \<Longrightarrow> lookup_all d ks = Inl KeyError"
proof (induction ks)
  case Nil
  then show ?case by simp
next
  case (Cons k ks)
  show ?case
  proof (cases "d k")
    case None
    then show ?thesis by simp
  next
    case (Some v)
    with Cons.prems have "\<exists>k \<in> set ks. d k = None" by auto
    then have "lookup_all d ks = Inl KeyError" by (rule Cons.IH)
    with Some show ?thesis by simp
  qed
qed

lemma lookup_all_Inr:
  "lookup_all d ks = Inr vs \<Longrightarrow> map d ks = map Some vs"
  by (induction ks arbitrary: vs) (auto split: option.splits sum.splits)

lemma lookup_all_Inl:
  "lookup_all d ks = Inl e \<Longrightarrow> e = KeyError \<and> (\<exists>k \<in> set ks. d k = None)"
  by (induction ks) (auto split: option.splits sum.splits)

lemma extract_pairs_KeyError:
  "\<exists>ev \<in> set evs. cd (label ev) = None \<Longrightarrow> extract_pairs cd evs = Inl KeyError"
proof (induction evs)
  case Nil
  then show ?case by simp
next
  case (Cons ev evs)
  show ?case
  proof (cases "cd (label ev)")
    case None
    then show ?thesis by simp
  next
    case (Some c)
    with Cons.prems have "\<exists>ev \<in> set evs. cd (label ev) = None" by auto
    then have "extract_pairs cd evs = Inl KeyError" by (rule Cons.IH)
    with Some show ?thesis by simp
  qed
qed

lemma extract_pairs_Inr:
  "extract_pairs cd evs = Inr ps \<Longrightarrow>
     map fst ps = map start_time evs \<and> map (\<lambda>ev. cd (label ev)) evs = map (\<lambda>p. Some (snd p)) ps"
  by (induction evs arbitrary: ps) (auto split: option.splits sum.splits)

lemma extract_pairs_empty:
  "extract_pairs cd evs = Inr [] \<Longrightarrow> evs = []"
  by (cases evs) (auto split: option.splits sum.splits)

lemma extract_pairs_total:
  "\<forall>ev \<in> set evs. cd (label ev) \<noteq> None \<Longrightarrow> \<exists>ps. extract_pairs cd evs = Inr ps"
  by (induction evs) auto

lemma realign_Inr:
  "realign ts evs = Inr evs' \<Longrightarrow>
     evs' = map (\<lambda>ev. ev\<lparr>start_time := start_time ev + hd ts, end_time := end_time ev + hd ts\<rparr>) evs
     \<and> (evs \<noteq> [] \<longrightarrow> ts \<noteq> [])"
  by (auto simp: realign_def split: if_splits list.splits)

lemma realign_nonempty:
  "ts \<noteq> [] \<Longrightarrow> realign ts evs =
     Inr (map (\<lambda>ev. ev\<lparr>start_time := start_time ev + hd ts, end_time := end_time ev + hd ts\<rparr>) evs)"
  by (auto simp: realign_def split: list.splits)

lemma remodnav_result:
  assumes "time_array time (length x) = Inr ts" and "length x = length y"
  shows "result (fst (classify_remodnav clf x y time px2deg rd ro so \<sigma>)) =
     (case realign ts (clf px2deg (np_recip (np_mean (np_diff ts))) (zip x y)) of
        Inl e \<Rightarrow> Inl e
      | Inr events \<Rightarrow>
         (case extract_pairs (if so then REMODNAV_SIMPLE \<sigma> else REMODNAV_CLASSES \<sigma>) events of
            Inl e \<Rightarrow> Inl e
          | Inr pairs \<Rightarrow>
             (case unzip_pairs pairs of
                Inl e \<Rightarrow> Inl e
              | Inr (segs, classes) \<Rightarrow>
                 (case (if \<not> rd then discrete_to_continuous ts (Times segs) (map Some classes)
                        else Inr (segs, map Some classes)) of
                    Inl e \<Rightarrow> Inl e
                  | Inr (segs', classes') \<Rightarrow>
                      Inr (segs', classes', if ro then Some events else None)))))"
  using assms by (simp add: classify_remodnav_def Let_def)

lemma remodnav_result_Inr:
  assumes "result (fst (classify_remodnav clf x y time px2deg rd ro so \<sigma>)) = Inr r"
  shows "\<exists>ts. time_array time (length x) = Inr ts \<and> length x = length y"
  using assms by (auto simp: classify_remodnav_def Let_def split: sum.splits if_splits)


lemma discrete_to_continuous_Inr:
  "discrete_to_continuous tv bps labels = Inr (s, c) \<Longrightarrow> s = tv \<and> length c = length tv"
  by (auto simp: discrete_to_continuous_def split: breakpoints.splits if_splits)

lemma nslr_result:
  assumes "time_array time (length x) = Inr ta" and "length x = length y"
    and "classify_gaze ta (zip x y) = (sample_class, seg, seg_class)"
  shows "fst (classify_nslr_hmm classify_gaze x y time rd ro \<sigma>) =
     (case (if \<not> rd
            then discrete_to_continuous ta (Times (map (\<lambda>s. fst (seg_t s)) (segments seg)))
                   seg_class
            else Inr (map (\<lambda>s. fst (seg_t s)) (segments seg), seg_class)) of
        Inl e \<Rightarrow> Inl e
      | Inr (segs', classes') \<Rightarrow>
          (case lookup_all (CLASSES \<sigma>) classes' of
             Inl e \<Rightarrow> Inl e
           | Inr names \<Rightarrow>
               Inr (segs', names,
                    if ro then Some (sample_class, seg, seg_class) else None)))"
  using assms by (simp add: classify_nslr_hmm_def Let_def)

lemma nslr_result_Inr:
  assumes "fst (classify_nslr_hmm classify_gaze x y time rd ro \<sigma>) = Inr r"
  shows "length x = length y \<and> (\<exists>ta. time_array time (length x) = Inr ta)"
  using assms by (auto simp: classify_nslr_hmm_def split: if_splits sum.splits)

lemma remodnav_example_run:
  "result (fst (classify_remodnav one_fixation_backend [0, 0, 0] [0, 0, 0]
                  (TimeVector [10, 101/10, 51/5]) 1 True True False (module_init example_ids)))
   = Inr ([10], [Some ''Fixation''],
          Some [\<lparr>start_time = 10, end_time = 51/5, label = ''FIXA''\<rparr>])"
  by (simp add: classify_remodnav_def time_array_def np_diff_def realign_def
        one_fixation_backend_def unzip_pairs_def module_init_def Let_def)

lemma sqrt_eighth: "1 / 100000 < sqrt (1 / 8)"
  by (rule real_less_rsqrt) (simp add: power2_eq_square)

subsection \<open>The interval-based adapter\<close>

text \<open>
  C2. When \<open>classify_remodnav\<close> is given an explicit time vector and returns, the time
  vector is not empty and every backend event has had \<open>time[0]\<close> added to its start and end
  time: the discrete breakpoints returned are the backend-local start times plus \<open>time[0]\<close>,
  the breakpoints handed to the converter in continuous mode are the same, and the events
  returned as original output are the shifted ones.
\<close>

theorem remodnav_realignment:
  assumes "clf px2deg (np_recip (np_mean (np_diff ts))) (zip x y) = events"
    and "result (fst (classify_remodnav clf x y (TimeVector ts) px2deg
                        return_discrete return_orig_output simple_output \<sigma>))
         = Inr (segs, classes, orig)"
  shows "ts \<noteq> []
     \<and> (return_discrete \<longrightarrow> segs = map (\<lambda>ev. start_time ev + hd ts) events)
     \<and> (\<not> return_discrete \<longrightarrow>
          (\<exists>labels. discrete_to_continuous ts
                       (Times (map (\<lambda>ev. start_time ev + hd ts) events)) labels
                     = Inr (segs, classes)))
     \<and> (return_orig_output \<longrightarrow>
          orig = Some (map (\<lambda>ev. ev\<lparr>start_time := start_time ev + hd ts,
                                        end_time := end_time ev + hd ts\<rparr>) events))"
proof -
  have ta: "time_array (TimeVector ts) (length x) = Inr ts"
    by (simp add: time_array_def)
  from remodnav_result_Inr [OF assms(2)] have len: "length x = length y" by blast
  note res = assms(2) [unfolded remodnav_result [OF ta len] assms(1)]
  from res obtain evs where re: "realign ts events = Inr evs"
    by (auto split: sum.splits)
  from res re obtain ps where ex:
    "extract_pairs (if simple_output then REMODNAV_SIMPLE \<sigma> else REMODNAV_CLASSES \<sigma>) evs = Inr ps"
    by (auto split: sum.splits)
  from res re ex have ne: "ps \<noteq> []"
    by (auto simp: unzip_pairs_def split: sum.splits if_splits)
  with ex have "evs \<noteq> []" by auto
  with realign_Inr [OF re] have tsne: "ts \<noteq> []" and
    evs: "evs = map (\<lambda>ev. ev\<lparr>start_time := start_time ev + hd ts,
                                 end_time := end_time ev + hd ts\<rparr>) events"
    by auto
  from extract_pairs_Inr [OF ex] evs
  have starts: "map fst ps = map (\<lambda>ev. start_time ev + hd ts) events"
    by (simp add: comp_def)
  from res re ex ne starts evs tsne show ?thesis
    by (auto simp: unzip_pairs_def split: sum.splits if_splits)
qed


theorem remodnav_realignment_witness:
  "one_fixation_backend 1 (np_recip (np_mean (np_diff [10, 101/10, 51/5]))) (zip [0, 0, 0] [0, 0, 0])
     = [\<lparr>start_time = 0, end_time = 1/5, label = ''FIXA''\<rparr>]
   \<and> result (fst (classify_remodnav one_fixation_backend [0, 0, 0] [0, 0, 0]
                  (TimeVector [10, 101/10, 51/5]) 1 True True False (module_init example_ids)))
     = Inr ([10], [Some ''Fixation''],
            Some [\<lparr>start_time = 10, end_time = 51/5, label = ''FIXA''\<rparr>])
   \<and> [10 :: real] = map (\<lambda>ev. start_time ev + hd [10, 101/10, 51/5])
                        [\<lparr>start_time = 0, end_time = 1/5, label = ''FIXA''\<rparr>]"
proof -
  have b: "one_fixation_backend 1 (np_recip (np_mean (np_diff [10, 101/10, 51/5])))
             (zip [0, 0, 0] [0, 0, 0])
           = [\<lparr>start_time = 0, end_time = 1/5, label = ''FIXA''\<rparr>]"
    by (simp add: one_fixation_backend_def)
  show ?thesis
    using remodnav_realignment [OF b remodnav_example_run] b remodnav_example_run by simp
qed

text \<open>
  C3. With an explicit time vector and gaze arrays of equal length, \<open>classify_remodnav\<close>
  emits the irregular-sampling warning exactly when the standard deviation of the
  consecutive differences exceeds \<open>1e-5\<close>, and in either case it does not raise there: it
  constructs the backend classifier with the sampling rate 1 divided by the mean of the
  differences (an infinity when the mean is zero; nan, without the warning, when there is
  no difference to take), applies the backend at that rate, and its result is what the
  later steps make of the events the backend returns there. In particular a discrete call
  returns when the backend finds events with known codes. Finite float64 values are
  idealised as reals.
\<close>

theorem irregular_sampling:
  assumes "length x = length y"
    and "d = np_diff ts"
    and "\<mu> = sum_list d / real (length d)"
    and "sd = sqrt (sum_list (map (\<lambda>v. (v - \<mu>)\<^sup>2) d) / real (length d))"
    and "rate = (if d = [] then NaN else if \<mu> = 0 then Infinite else Finite (1 / \<mu>))"
    and "out = fst (classify_remodnav clf x y (TimeVector ts) px2deg
                      return_discrete return_orig_output simple_output \<sigma>)"
  shows "(d \<noteq> [] \<and> sd > 1 / 100000 \<longrightarrow> warnings out = [IrregularSamplingWarning])
     \<and> (d = [] \<or> sd \<le> 1 / 100000 \<longrightarrow> warnings out = [])
     \<and> clf_calls out = [(px2deg, rate)]
     \<and> result out =
         (case realign ts (clf px2deg rate (zip x y)) of
            Inl e \<Rightarrow> Inl e
          | Inr events \<Rightarrow>
             (case extract_pairs (if simple_output then REMODNAV_SIMPLE \<sigma>
                                  else REMODNAV_CLASSES \<sigma>) events of
                Inl e \<Rightarrow> Inl e
              | Inr pairs \<Rightarrow>
                 (case unzip_pairs pairs of
                    Inl e \<Rightarrow> Inl e
                  | Inr (segs, classes) \<Rightarrow>
                     (case (if \<not> return_discrete
                            then discrete_to_continuous ts (Times segs) (map Some classes)
                            else Inr (segs, map Some classes)) of
                        Inl e \<Rightarrow> Inl e
                      | Inr (segs', classes') \<Rightarrow>
                          Inr (segs', classes',
                               if return_orig_output then Some events else None)))))
     \<and> (events = clf px2deg rate (zip x y) \<and> events \<noteq> [] \<and> ts \<noteq> []
          \<and> (\<forall>ev \<in> set events.
                 (if simple_output then REMODNAV_SIMPLE \<sigma> else REMODNAV_CLASSES \<sigma>) (label ev)
                 \<noteq> None)
          \<and> return_discrete
        \<longrightarrow> (\<exists>classes orig.
              result out = Inr (map (\<lambda>ev. start_time ev + hd ts) events, classes, orig)))"
proof -
  have ta: "time_array (TimeVector ts) (length x) = Inr ts"
    by (simp add: time_array_def)
  have rate: "np_recip (np_mean (np_diff ts)) = rate"
    using assms(2,3,5) by (cases "np_diff ts") simp_all
  have w: "(d \<noteq> [] \<and> sd > 1 / 100000 \<longrightarrow> warnings out = [IrregularSamplingWarning])
     \<and> (d = [] \<or> sd \<le> 1 / 100000 \<longrightarrow> warnings out = [])
     \<and> clf_calls out = [(px2deg, rate)]"
  proof (cases d)
    case Nil
    with assms show ?thesis
      by (simp add: classify_remodnav_def time_array_def Let_def)
  next
    case (Cons v vs)
    with assms(2) have d: "np_diff ts = v # vs" by simp
    from assms Cons show ?thesis
      by (simp add: classify_remodnav_def time_array_def Let_def d)
  qed
  have r: "result out =
         (case realign ts (clf px2deg rate (zip x y)) of
            Inl e \<Rightarrow> Inl e
          | Inr events \<Rightarrow>
             (case extract_pairs (if simple_output then REMODNAV_SIMPLE \<sigma>
                                  else REMODNAV_CLASSES \<sigma>) events of
                Inl e \<Rightarrow> Inl e
              | Inr pairs \<Rightarrow>
                 (case unzip_pairs pairs of
                    Inl e \<Rightarrow> Inl e
                  | Inr (segs, classes) \<Rightarrow>
                     (case (if \<not> return_discrete
                            then discrete_to_continuous ts (Times segs) (map Some classes)
                            else Inr (segs, map Some classes)) of
                        Inl e \<Rightarrow> Inl e
                      | Inr (segs', classes') \<Rightarrow>
                          Inr (segs', classes',
                               if return_orig_output then Some events else None)))))"
    unfolding assms(6) remodnav_result [OF ta assms(1)] rate ..
  have p: "events = clf px2deg rate (zip x y) \<and> events \<noteq> [] \<and> ts \<noteq> []
          \<and> (\<forall>ev \<in> set events.
                 (if simple_output then REMODNAV_SIMPLE \<sigma> else REMODNAV_CLASSES \<sigma>) (label ev)
                 \<noteq> None)
          \<and> return_discrete
        \<longrightarrow> (\<exists>classes orig.
              result out = Inr (map (\<lambda>ev. start_time ev + hd ts) events, classes, orig))"
  proof
    assume a: "events = clf px2deg rate (zip x y) \<and> events \<noteq> [] \<and> ts \<noteq> []
          \<and> (\<forall>ev \<in> set events.
                 (if simple_output then REMODNAV_SIMPLE \<sigma> else REMODNAV_CLASSES \<sigma>) (label ev)
                 \<noteq> None)
          \<and> return_discrete"
    let ?cd = "if simple_output then REMODNAV_SIMPLE \<sigma> else REMODNAV_CLASSES \<sigma>"
    let ?shift = "\<lambda>ev. ev\<lparr>start_time := start_time ev + hd ts, end_time := end_time ev + hd ts\<rparr>"
    from a have ev: "clf px2deg rate (zip x y) = events" and ne: "events \<noteq> []"
      and tsne: "ts \<noteq> []" and known: "\<forall>ev \<in> set events. ?cd (label ev) \<noteq> None"
      and rd: return_discrete
      by blast+
    have re: "realign ts events = Inr (map ?shift events)"
      using tsne by (rule realign_nonempty)
    from known have "\<forall>ev \<in> set (map ?shift events). ?cd (label ev) \<noteq> None" by simp
    then obtain ps where ex: "extract_pairs ?cd (map ?shift events) = Inr ps"
      using extract_pairs_total by blast
    from extract_pairs_Inr [OF ex] have st: "map fst ps = map (\<lambda>ev. start_time ev + hd ts) events"
      by (simp add: comp_def)
    with ne have psne: "ps \<noteq> []" by auto
    show "\<exists>classes orig.
              result out = Inr (map (\<lambda>ev. start_time ev + hd ts) events, classes, orig)"
      unfolding r ev re using ex psne st rd by (simp add: unzip_pairs_def)
  qed
  from w r p show ?thesis by blast
qed


theorem irregular_sampling_witness:
  "np_diff [0, 1, 2, 7/2, 4] = [1, 1, 3/2, 1/2]
   \<and> sqrt (1 / 8) > 1 / 100000
   \<and> warnings (fst (classify_remodnav one_fixation_backend [0, 0, 0, 0, 0] [0, 0, 0, 0, 0]
                      (TimeVector [0, 1, 2, 7/2, 4]) 1 True False False
                      (module_init example_ids)))
     = [IrregularSamplingWarning]
   \<and> clf_calls (fst (classify_remodnav one_fixation_backend [0, 0, 0, 0, 0] [0, 0, 0, 0, 0]
                      (TimeVector [0, 1, 2, 7/2, 4]) 1 True False False
                      (module_init example_ids)))
     = [(1, Finite 1)]
   \<and> result (fst (classify_remodnav one_fixation_backend [0, 0, 0, 0, 0] [0, 0, 0, 0, 0]
                      (TimeVector [0, 1, 2, 7/2, 4]) 1 True False False
                      (module_init example_ids)))
     = Inr ([0], [Some ''Fixation''], None)"
proof -
  have d: "[1, 1, 3/2, 1/2] = np_diff [0, 1, 2, 7/2, 4]"
    by (simp add: np_diff_def)
  have m: "(1::real) = sum_list [1, 1, 3/2, 1/2] / real (length [1, 1, 3/2, 1/2 :: real])"
    by simp
  have sd: "sqrt (1 / 8)
            = sqrt (sum_list (map (\<lambda>v. (v - 1)\<^sup>2) [1, 1, 3/2, 1/2 :: real])
                    / real (length [1, 1, 3/2, 1/2 :: real]))"
    by (simp add: power2_eq_square)
  have rate: "Finite 1 = (if [1, 1, 3/2, 1/2 :: real] = [] then NaN
                          else if (1::real) = 0 then Infinite else Finite (1 / 1))"
    by simp
  have len: "length [0, 0, 0, 0, 0 :: real] = length [0, 0, 0, 0, 0 :: real]"
    by simp
  show ?thesis
    using irregular_sampling [OF len d m sd rate refl,
            where clf = one_fixation_backend and px2deg = 1 and return_discrete = True
              and return_orig_output = False and simple_output = False
              and \<sigma> = "module_init example_ids"]
          sqrt_eighth d [symmetric]
    by (simp add: one_fixation_backend_def realign_def unzip_pairs_def module_init_def)
qed

text \<open>
  C10. When the backend returns no event, \<open>classify_remodnav\<close> raises \<open>ValueError\<close> at the
  extraction step; so a call that returns was given at least one backend event, and its
  segments and classes are not empty.
\<close>

theorem remodnav_empty_events:
  assumes "out = fst (classify_remodnav clf x y time px2deg
                        return_discrete return_orig_output simple_output \<sigma>)"
  shows "(\<forall>ts. time_array time (length x) = Inr ts \<and> length x = length y
               \<and> clf px2deg (np_recip (np_mean (np_diff ts))) (zip x y) = []
            \<longrightarrow> result out = Inl ValueError)
     \<and> (\<forall>segs classes orig. result out = Inr (segs, classes, orig) \<longrightarrow>
           (\<exists>ts. time_array time (length x) = Inr ts
                 \<and> clf px2deg (np_recip (np_mean (np_diff ts))) (zip x y) \<noteq> [])
           \<and> segs \<noteq> [] \<and> classes \<noteq> [])"
proof (intro conjI allI impI)
  fix ts
  assume a: "time_array time (length x) = Inr ts \<and> length x = length y
          \<and> clf px2deg (np_recip (np_mean (np_diff ts))) (zip x y) = []"
  then have ta: "time_array time (length x) = Inr ts" and len: "length x = length y"
    and ev: "clf px2deg (np_recip (np_mean (np_diff ts))) (zip x y) = []"
    by blast+
  show "result out = Inl ValueError"
    unfolding assms remodnav_result [OF ta len] ev
    by (simp add: realign_def unzip_pairs_def)
next
  fix segs classes orig
  assume r: "result out = Inr (segs, classes, orig)"
  from remodnav_result_Inr [OF r [unfolded assms]] obtain ts
    where ta: "time_array time (length x) = Inr ts" and len: "length x = length y"
    by blast
  note res = r [unfolded assms remodnav_result [OF ta len]]
  from res obtain evs where
    re: "realign ts (clf px2deg (np_recip (np_mean (np_diff ts))) (zip x y)) = Inr evs"
    by (auto split: sum.splits)
  from res re obtain ps where ex:
    "extract_pairs (if simple_output then REMODNAV_SIMPLE \<sigma> else REMODNAV_CLASSES \<sigma>) evs = Inr ps"
    by (auto split: sum.splits)
  from res re ex have ne: "ps \<noteq> []"
    by (auto simp: unzip_pairs_def split: sum.splits if_splits)
  with ex have evs: "evs \<noteq> []" by auto
  with realign_Inr [OF re]
  have ev: "clf px2deg (np_recip (np_mean (np_diff ts))) (zip x y) \<noteq> []" and tsne: "ts \<noteq> []"
    by auto
  from ta ev show "\<exists>ts. time_array time (length x) = Inr ts
                 \<and> clf px2deg (np_recip (np_mean (np_diff ts))) (zip x y) \<noteq> []"
    by blast
  from res re ex ne tsne show "segs \<noteq> []"
    by (auto simp: unzip_pairs_def split: sum.splits if_splits
             dest!: discrete_to_continuous_Inr)
  from res re ex ne tsne show "classes \<noteq> []"
    by (auto simp: unzip_pairs_def split: sum.splits if_splits
             dest!: discrete_to_continuous_Inr)
qed

theorem remodnav_empty_events_witness:
  "time_array (TimeVector [0, 1/2, 1]) (length [0, 0, 0 :: real]) = Inr [0, 1/2, 1]
   \<and> length [0, 0, 0 :: real] = length [0, 0, 0 :: real]
   \<and> no_event_backend 1 (np_recip (np_mean (np_diff [0, 1/2, 1]))) (zip [0, 0, 0] [0, 0, 0]) = []
   \<and> result (fst (classify_remodnav no_event_backend [0, 0, 0] [0, 0, 0]
                     (TimeVector [0, 1/2, 1]) 1 True False False (module_init example_ids)))
     = Inl ValueError"
  using remodnav_empty_events [OF refl, of "TimeVector [0, 1/2, 1]" "[0, 0, 0]" "[0, 0, 0]"
          no_event_backend 1 True False False "module_init example_ids"]
  by (simp add: time_array_def no_event_backend_def)

subsection \<open>The index-based adapter\<close>

text \<open>
  C8, as stated, fails: the breakpoints are read from the field \<open>t\<close> of each segment,
  its start time, not its start index. For a recording that starts at time 10 the two
  segments start at the samples 0 and 2, and the breakpoints are 10 and 11.
\<close>

theorem nslr_breakpoints_are_times:
  "offset_time_backend [10, 21/2, 11] (zip [0, 0, 0] [0, 0, 0])
     = ([Some 1, Some 1, Some 2], Segmentation [Segment (10, 11), Segment (11, 11)],
        [Some 1, Some 2])
   \<and> map (start_index [10, 21/2, 11]) [Segment (10, 11), Segment (11, 11)] = [0, 2]
   \<and> fst (classify_nslr_hmm offset_time_backend [0, 0, 0] [0, 0, 0]
            (TimeVector [10, 21/2, 11]) True False (module_init example_ids))
     = Inr ([10, 11], [''Fixation'', ''Saccade''], None)
   \<and> [10, 11] \<noteq> map real [0, 2]"
  by (simp add: classify_nslr_hmm_def time_array_def offset_time_backend_def start_index_def
        module_init_def example_ids_def)

text \<open>
  C8, amended. The discrete breakpoints \<open>classify_nslr_hmm\<close> derives are the start times
  \<open>t[0]\<close> of the backend's segments, one per segment and in the backend's order: they are
  what a discrete call returns and what a continuous call hands to the converter.
\<close>

theorem nslr_breakpoints:
  assumes "time_array time (length x) = Inr ta"
    and "classify_gaze ta (zip x y) = (sample_class, seg, seg_class)"
    and "fst (classify_nslr_hmm classify_gaze x y time return_discrete return_orig_output \<sigma>)
         = Inr (segs, classes, orig)"
  shows "(return_discrete \<longrightarrow>
            length segs = length (segments seg)
            \<and> (\<forall>i < length (segments seg). segs ! i = fst (seg_t (segments seg ! i))))
     \<and> (\<not> return_discrete \<longrightarrow>
            (\<exists>labels. discrete_to_continuous ta
                         (Times (map (\<lambda>s. fst (seg_t s)) (segments seg))) seg_class
                       = Inr (segs, labels)))"
proof -
  from nslr_result_Inr [OF assms(3)] have len: "length x = length y" by blast
  note res = assms(3) [unfolded nslr_result [where classify_gaze = classify_gaze,
                                             OF assms(1) len assms(2)]]
  then show ?thesis
    by (auto split: sum.splits if_splits)
qed

lemma nslr_example_run:
  "fst (classify_nslr_hmm two_segment_backend [0, 0, 0] [0, 0, 0] (TimeVector [0, 1/2, 1])
          True False (module_init example_ids))
   = Inr ([0, 1], [''Fixation'', ''Saccade''], None)"
  by (simp add: classify_nslr_hmm_def time_array_def two_segment_backend_def
        module_init_def example_ids_def)

theorem nslr_breakpoints_witness:
  "time_array (TimeVector [0, 1/2, 1]) (length [0, 0, 0 :: real]) = Inr [0, 1/2, 1]
   \<and> fst (classify_nslr_hmm two_segment_backend [0, 0, 0] [0, 0, 0] (TimeVector [0, 1/2, 1])
          True False (module_init example_ids))
     = Inr ([0, 1], [''Fixation'', ''Saccade''], None)
   \<and> length [0, 1 :: real] = length [Segment (0, 1), Segment (1, 1)]
   \<and> [0, 1 :: real] ! 1 = fst (seg_t ([Segment (0, 1), Segment (1, 1)] ! 1))"
proof -
  have ta: "time_array (TimeVector [0, 1/2, 1]) (length [0, 0, 0 :: real]) = Inr [0, 1/2, 1]"
    by (simp add: time_array_def)
  have b: "two_segment_backend [0, 1/2, 1] (zip [0, 0, 0] [0, 0, 0])
           = ([Some 1, Some 1, Some 2], Segmentation [Segment (0, 1), Segment (1, 1)],
              [Some 1, Some 2])"
    by (simp add: two_segment_backend_def)
  show ?thesis
    using nslr_breakpoints [where classify_gaze = two_segment_backend, OF ta b nslr_example_run]
          ta nslr_example_run
    by simp
qed

subsection \<open>Unknown native labels\<close>

lemma nslr_discrete_KeyError:
  assumes "length x = length y" and "time_array time (length x) = Inr ta"
    and "classify_gaze ta (zip x y) = (sample_class, seg, seg_class)"
    and "\<exists>k \<in> set seg_class. CLASSES \<sigma> k = None"
  shows "fst (classify_nslr_hmm classify_gaze x y time True ro \<sigma>) = Inl KeyError"
  unfolding nslr_result [where classify_gaze = classify_gaze, OF assms(2) assms(1) assms(3)]
  using lookup_all_KeyError [OF assms(4)] by simp

lemma nslr_continuous_KeyError:
  assumes "length x = length y" and "time_array time (length x) = Inr ta"
    and "classify_gaze ta (zip x y) = (sample_class, seg, seg_class)"
    and "discrete_to_continuous ta (Times (map (\<lambda>s. fst (seg_t s)) (segments seg))) seg_class
         = Inr (tv, labels)"
    and "\<exists>k \<in> set labels. CLASSES \<sigma> k = None"
  shows "fst (classify_nslr_hmm classify_gaze x y time False ro \<sigma>) = Inl KeyError"
  unfolding nslr_result [where classify_gaze = classify_gaze, OF assms(2) assms(1) assms(3)]
  using lookup_all_KeyError [OF assms(5)] assms(4) by simp

lemma remodnav_KeyError:
  assumes "length x = length y" and "time_array time (length x) = Inr ts" and "ts \<noteq> []"
    and "\<exists>ev \<in> set (clf px2deg (np_recip (np_mean (np_diff ts))) (zip x y)).
           (if so then REMODNAV_SIMPLE \<sigma> else REMODNAV_CLASSES \<sigma>) (label ev) = None"
  shows "result (fst (classify_remodnav clf x y time px2deg rd ro so \<sigma>)) = Inl KeyError"
proof -
  let ?evs = "clf px2deg (np_recip (np_mean (np_diff ts))) (zip x y)"
  let ?shift = "\<lambda>ev. ev\<lparr>start_time := start_time ev + hd ts, end_time := end_time ev + hd ts\<rparr>"
  let ?cd = "if so then REMODNAV_SIMPLE \<sigma> else REMODNAV_CLASSES \<sigma>"
  from assms(4) have "\<exists>ev \<in> set (map ?shift ?evs). ?cd (label ev) = None"
    by auto
  then have "extract_pairs ?cd (map ?shift ?evs) = Inl KeyError"
    by (rule extract_pairs_KeyError)
  then show ?thesis
    unfolding remodnav_result [OF assms(2) assms(1)] realign_nonempty [OF assms(3)]
    by simp
qed

lemma classes_None_key:
  "CLASSES (module_init ids) k = Some ''None'' \<Longrightarrow> k = None"
  by (auto simp: module_init_def split: if_splits)

lemma remodnav_tables_no_None:
  "(if so then REMODNAV_SIMPLE (module_init ids) else REMODNAV_CLASSES (module_init ids)) k
   \<noteq> Some ''None''"
  by (simp add: module_init_def)

lemma nslr_names:
  assumes "time_array time (length x) = Inr ta"
    and "classify_gaze ta (zip x y) = (sample_class, seg, seg_class)"
    and "fst (classify_nslr_hmm classify_gaze x y time rd ro (module_init ids))
         = Inr (segs, names, orig)"
  shows "\<exists>labels.
           (if rd then labels = seg_class
            else discrete_to_continuous ta (Times (map (\<lambda>s. fst (seg_t s)) (segments seg)))
                   seg_class = Inr (segs, labels))
           \<and> length labels = length names
           \<and> (\<forall>i < length names.
                 CLASSES (module_init ids) (labels ! i) = Some (names ! i)
                 \<and> (names ! i = ''None'' \<longrightarrow> labels ! i = None))"
proof -
  from nslr_result_Inr [OF assms(3)] have len: "length x = length y" by blast
  note res = assms(3) [unfolded nslr_result [where classify_gaze = classify_gaze,
                                             OF assms(1) len assms(2)]]
  from res obtain labels where
    l: "if rd then labels = seg_class
        else discrete_to_continuous ta (Times (map (\<lambda>s. fst (seg_t s)) (segments seg)))
               seg_class = Inr (segs, labels)"
    and lk: "lookup_all (CLASSES (module_init ids)) labels = Inr names"
    by (auto split: sum.splits if_splits)
  from lookup_all_Inr [OF lk]
  have m: "map (CLASSES (module_init ids)) labels = map Some names" .
  then have len': "length labels = length names"
    by (rule map_eq_imp_length_eq)
  have "\<forall>i < length names.
          CLASSES (module_init ids) (labels ! i) = Some (names ! i)
          \<and> (names ! i = ''None'' \<longrightarrow> labels ! i = None)"
  proof (intro allI impI)
    fix i assume i: "i < length names"
    with len' have "map (CLASSES (module_init ids)) labels ! i
                    = CLASSES (module_init ids) (labels ! i)"
      by simp
    with m i have c: "CLASSES (module_init ids) (labels ! i) = Some (names ! i)"
      by simp
    then show "CLASSES (module_init ids) (labels ! i) = Some (names ! i)
               \<and> (names ! i = ''None'' \<longrightarrow> labels ! i = None)"
      using classes_None_key [of ids "labels ! i"] by auto
  qed
  with l len' show ?thesis by blast
qed

lemma label_at_range:
  "label_at cur bs p = cur \<or> label_at cur bs p \<in> snd ` set bs"
proof (induction bs arbitrary: cur)
  case Nil
  then show ?case by simp
next
  case (Cons b bs)
  obtain q l where b: "b = (q, l)" by (cases b)
  from Cons [of l] b show ?case by auto
qed

lemma extract_pairs_values:
  "extract_pairs cd evs = Inr ps \<Longrightarrow> c \<in> snd ` set ps \<Longrightarrow> \<exists>k. cd k = Some c"
proof (induction evs arbitrary: ps)
  case Nil
  then show ?case by simp
next
  case (Cons ev evs)
  from Cons.prems(1) obtain v ps' where v: "cd (label ev) = Some v"
    and ps': "extract_pairs cd evs = Inr ps'" and ps: "ps = (start_time ev, v) # ps'"
    by (auto split: option.splits sum.splits)
  from Cons.prems(2) ps have "c = v \<or> c \<in> snd ` set ps'" by auto
  then show ?case
  proof
    assume "c = v"
    with v show ?thesis by blast
  next
    assume "c \<in> snd ` set ps'"
    with Cons.IH [OF ps'] show ?thesis .
  qed
qed

lemma remodnav_no_None:
  assumes "result (fst (classify_remodnav clf x y time px2deg rd ro so (module_init ids)))
           = Inr (segs, classes, orig)"
  shows "Some ''None'' \<notin> set classes"
proof -
  let ?cd = "if so then REMODNAV_SIMPLE (module_init ids) else REMODNAV_CLASSES (module_init ids)"
  from remodnav_result_Inr [OF assms] obtain ts
    where ta: "time_array time (length x) = Inr ts" and len: "length x = length y"
    by blast
  note res = assms [unfolded remodnav_result [OF ta len]]
  from res obtain evs where
    re: "realign ts (clf px2deg (np_recip (np_mean (np_diff ts))) (zip x y)) = Inr evs"
    by (auto split: sum.splits)
  from res re obtain ps where ex: "extract_pairs ?cd evs = Inr ps"
    by (auto split: sum.splits)
  have no: "''None'' \<notin> snd ` set ps"
  proof
    assume "''None'' \<in> snd ` set ps"
    from extract_pairs_values [OF ex this] obtain k where "?cd k = Some ''None''" by blast
    with remodnav_tables_no_None [of so ids k] show False by blast
  qed
  show ?thesis
  proof (cases rd)
    case True
    with res re ex have "classes = map Some (map snd ps)"
      by (auto simp: unzip_pairs_def split: sum.splits if_splits)
    with no show ?thesis by auto
  next
    case False
    with res re ex have c: "classes = map (label_at None (zip (map fst ps) (map Some (map snd ps)))) ts"
      by (auto simp: unzip_pairs_def discrete_to_continuous_def split: sum.splits if_splits)
    show ?thesis
    proof
      assume "Some ''None'' \<in> set classes"
      with c obtain p where
        "label_at None (zip (map fst ps) (map Some (map snd ps))) p = Some ''None''"
        by auto
      with label_at_range [of None "zip (map fst ps) (map Some (map snd ps))" p]
      have "Some ''None'' \<in> snd ` set (zip (map fst ps) (map Some (map snd ps)))"
        by auto
      then have "Some ''None'' \<in> set (map Some (map snd ps))"
        by (auto dest: set_zip_rightD)
      with no show False by auto
    qed
  qed
qed


text \<open>
  C4, as stated, fails: in continuous mode the index-based adapter maps the labels only
  after the conversion, and a segment between two sampling times labels no sample. Here the
  backend's per-segment ids contain 99, which is not a key of \<open>CLASSES\<close>, and the call
  returns.
\<close>

theorem unknown_label_dropped:
  "dropped_label_backend [0, 1] (zip [0, 0] [0, 0])
     = ([Some 1, Some 2],
        Segmentation [Segment (0, 1/2), Segment (1/2, 1), Segment (1, 1)],
        [Some 1, Some 99, Some 2])
   \<and> CLASSES (module_init example_ids) (Some 99) = None
   \<and> fst (classify_nslr_hmm dropped_label_backend [0, 0] [0, 0] (TimeVector [0, 1])
            False False (module_init example_ids))
     = Inr ([0, 1], [''Fixation'', ''Saccade''], None)"
  by (simp add: classify_nslr_hmm_def time_array_def dropped_label_backend_def
        discrete_to_continuous_def module_init_def example_ids_def)

text \<open>
  C4, amended. A native label that is absent from the table and reaches the mapping step
  makes the call fail with \<open>KeyError\<close>: any per-segment id of the index-based backend in
  discrete mode, any label the conversion assigns to a sample in continuous mode, and any
  event code of the interval-based backend (whose time array must not be empty, or reading
  \<open>times[0]\<close> fails first). No label is defaulted: every name the index-based adapter
  returns is the table's entry for the label mapped at that position, \<open>''None''\<close> only for
  Python's \<open>None\<close>, and the interval-based adapter never returns \<open>''None''\<close>.
\<close>

theorem unknown_label_raises:
  "(length x = length y \<and> time_array time (length x) = Inr ta
      \<and> classify_gaze ta (zip x y) = (sample_class, seg, seg_class)
      \<and> (\<exists>k \<in> set seg_class. CLASSES \<sigma> k = None)
    \<longrightarrow> fst (classify_nslr_hmm classify_gaze x y time True ro \<sigma>) = Inl KeyError)
   \<and> (length x = length y \<and> time_array time (length x) = Inr ta
      \<and> classify_gaze ta (zip x y) = (sample_class, seg, seg_class)
      \<and> discrete_to_continuous ta (Times (map (\<lambda>s. fst (seg_t s)) (segments seg))) seg_class
          = Inr (tv, labels)
      \<and> (\<exists>k \<in> set labels. CLASSES \<sigma> k = None)
    \<longrightarrow> fst (classify_nslr_hmm classify_gaze x y time False ro \<sigma>) = Inl KeyError)
   \<and> (length x = length y \<and> time_array time (length x) = Inr ta \<and> ta \<noteq> []
      \<and> (\<exists>ev \<in> set (clf px2deg (np_recip (np_mean (np_diff ta))) (zip x y)).
            (if so then REMODNAV_SIMPLE \<sigma> else REMODNAV_CLASSES \<sigma>) (label ev) = None)
    \<longrightarrow> result (fst (classify_remodnav clf x y time px2deg rd ro so \<sigma>)) = Inl KeyError)
   \<and> (time_array time (length x) = Inr ta
      \<and> classify_gaze ta (zip x y) = (sample_class, seg, seg_class)
      \<and> fst (classify_nslr_hmm classify_gaze x y time rd ro (module_init ids))
          = Inr (segs, names, orig)
    \<longrightarrow> (\<exists>mapped.
           (if rd then mapped = seg_class
            else discrete_to_continuous ta (Times (map (\<lambda>s. fst (seg_t s)) (segments seg)))
                   seg_class = Inr (segs, mapped))
           \<and> length mapped = length names
           \<and> (\<forall>i < length names.
                 CLASSES (module_init ids) (mapped ! i) = Some (names ! i)
                 \<and> (names ! i = ''None'' \<longrightarrow> mapped ! i = None))))
   \<and> (result (fst (classify_remodnav clf x y time px2deg rd ro so (module_init ids)))
        = Inr (rsegs, rclasses, rorig)
    \<longrightarrow> Some ''None'' \<notin> set rclasses)"
proof (intro conjI impI)
  assume "length x = length y \<and> time_array time (length x) = Inr ta
      \<and> classify_gaze ta (zip x y) = (sample_class, seg, seg_class)
      \<and> (\<exists>k \<in> set seg_class. CLASSES \<sigma> k = None)"
  then show "fst (classify_nslr_hmm classify_gaze x y time True ro \<sigma>) = Inl KeyError"
    using nslr_discrete_KeyError [where classify_gaze = classify_gaze] by blast
next
  assume "length x = length y \<and> time_array time (length x) = Inr ta
      \<and> classify_gaze ta (zip x y) = (sample_class, seg, seg_class)
      \<and> discrete_to_continuous ta (Times (map (\<lambda>s. fst (seg_t s)) (segments seg))) seg_class
          = Inr (tv, labels)
      \<and> (\<exists>k \<in> set labels. CLASSES \<sigma> k = None)"
  then show "fst (classify_nslr_hmm classify_gaze x y time False ro \<sigma>) = Inl KeyError"
    using nslr_continuous_KeyError [where classify_gaze = classify_gaze] by blast
next
  assume "length x = length y \<and> time_array time (length x) = Inr ta \<and> ta \<noteq> []
      \<and> (\<exists>ev \<in> set (clf px2deg (np_recip (np_mean (np_diff ta))) (zip x y)).
            (if so then REMODNAV_SIMPLE \<sigma> else REMODNAV_CLASSES \<sigma>) (label ev) = None)"
  then show "result (fst (classify_remodnav clf x y time px2deg rd ro so \<sigma>)) = Inl KeyError"
    using remodnav_KeyError [where clf = clf] by blast
next
  assume "time_array time (length x) = Inr ta
      \<and> classify_gaze ta (zip x y) = (sample_class, seg, seg_class)
      \<and> fst (classify_nslr_hmm classify_gaze x y time rd ro (module_init ids))
          = Inr (segs, names, orig)"
  then have a: "time_array time (length x) = Inr ta"
    and b: "classify_gaze ta (zip x y) = (sample_class, seg, seg_class)"
    and c: "fst (classify_nslr_hmm classify_gaze x y time rd ro (module_init ids))
          = Inr (segs, names, orig)"
    by blast+
  show "\<exists>mapped.
           (if rd then mapped = seg_class
            else discrete_to_continuous ta (Times (map (\<lambda>s. fst (seg_t s)) (segments seg)))
                   seg_class = Inr (segs, mapped))
           \<and> length mapped = length names
           \<and> (\<forall>i < length names.
                 CLASSES (module_init ids) (mapped ! i) = Some (names ! i)
                 \<and> (names ! i = ''None'' \<longrightarrow> mapped ! i = None))"
    by (rule nslr_names [where classify_gaze = classify_gaze, OF a b c])
next
  assume "result (fst (classify_remodnav clf x y time px2deg rd ro so (module_init ids)))
        = Inr (rsegs, rclasses, rorig)"
  then show "Some ''None'' \<notin> set rclasses"
    by (rule remodnav_no_None)
qed


theorem unknown_label_raises_witness:
  "fst (classify_nslr_hmm dropped_label_backend [0, 0] [0, 0] (TimeVector [0, 1])
          True False (module_init example_ids)) = Inl KeyError
   \<and> fst (classify_nslr_hmm dropped_label_backend [0, 0, 0] [0, 0, 0] (TimeVector [0, 1/2, 1])
          False False (module_init example_ids)) = Inl KeyError
   \<and> result (fst (classify_remodnav unknown_code_backend [0, 0, 0] [0, 0, 0]
                     (TimeVector [10, 101/10, 51/5]) 1 True False False
                     (module_init example_ids))) = Inl KeyError
   \<and> CLASSES (module_init example_ids) ([Some 1, Some 2] ! 0) = Some ([''Fixation'', ''Saccade''] ! 0)
   \<and> Some ''None'' \<notin> set [Some ''Fixation'']"
proof -
  let ?seg = "Segmentation [Segment (0, 1/2), Segment (1/2, 1), Segment (1, 1)]"
  let ?sc = "[Some 1, Some 99, Some 2] :: int option list"
  have unknown: "\<exists>k \<in> set ?sc. CLASSES (module_init example_ids) k = None"
    by (simp add: module_init_def example_ids_def)
  have h1: "length [0, 0 :: real] = length [0, 0 :: real]
      \<and> time_array (TimeVector [0, 1]) (length [0, 0 :: real]) = Inr [0, 1]
      \<and> dropped_label_backend [0, 1] (zip [0, 0] [0, 0]) = ([Some 1, Some 2], ?seg, ?sc)
      \<and> (\<exists>k \<in> set ?sc. CLASSES (module_init example_ids) k = None)"
    using unknown by (simp add: time_array_def dropped_label_backend_def)
  have c1: "fst (classify_nslr_hmm dropped_label_backend [0, 0] [0, 0] (TimeVector [0, 1])
                   True False (module_init example_ids)) = Inl KeyError"
    using unknown_label_raises [where classify_gaze = dropped_label_backend
        and x = "[0, 0]" and y = "[0, 0]" and time = "TimeVector [0, 1]" and ta = "[0, 1]"
        and sample_class = "[Some 1, Some 2]" and seg = ?seg and seg_class = ?sc
        and \<sigma> = "module_init example_ids" and ro = False, THEN conjunct1] h1
    by blast
  have h2: "length [0, 0, 0 :: real] = length [0, 0, 0 :: real]
      \<and> time_array (TimeVector [0, 1/2, 1]) (length [0, 0, 0 :: real]) = Inr [0, 1/2, 1]
      \<and> dropped_label_backend [0, 1/2, 1] (zip [0, 0, 0] [0, 0, 0])
          = ([Some 1, Some 2], ?seg, ?sc)
      \<and> discrete_to_continuous [0, 1/2, 1] (Times (map (\<lambda>s. fst (seg_t s)) (segments ?seg))) ?sc
          = Inr ([0, 1/2, 1], ?sc)
      \<and> (\<exists>k \<in> set ?sc. CLASSES (module_init example_ids) k = None)"
    using unknown
    by (simp add: time_array_def dropped_label_backend_def discrete_to_continuous_def)
  have c2: "fst (classify_nslr_hmm dropped_label_backend [0, 0, 0] [0, 0, 0]
                   (TimeVector [0, 1/2, 1]) False False (module_init example_ids))
            = Inl KeyError"
    using unknown_label_raises [where classify_gaze = dropped_label_backend
        and x = "[0, 0, 0]" and y = "[0, 0, 0]" and time = "TimeVector [0, 1/2, 1]"
        and ta = "[0, 1/2, 1]" and sample_class = "[Some 1, Some 2]" and seg = ?seg
        and seg_class = ?sc and tv = "[0, 1/2, 1]" and labels = ?sc
        and \<sigma> = "module_init example_ids" and ro = False,
        THEN conjunct2, THEN conjunct1] h2
    by blast
  have h3: "length [0, 0, 0 :: real] = length [0, 0, 0 :: real]
      \<and> time_array (TimeVector [10, 101/10, 51/5]) (length [0, 0, 0 :: real])
          = Inr [10, 101/10, 51/5]
      \<and> [10, 101/10, 51/5 :: real] \<noteq> []
      \<and> (\<exists>ev \<in> set (unknown_code_backend 1
                        (np_recip (np_mean (np_diff [10, 101/10, 51/5])))
                        (zip [0, 0, 0] [0, 0, 0])).
            (if False then REMODNAV_SIMPLE (module_init example_ids)
             else REMODNAV_CLASSES (module_init example_ids)) (label ev) = None)"
    by (simp add: time_array_def unknown_code_backend_def module_init_def)
  have c3: "result (fst (classify_remodnav unknown_code_backend [0, 0, 0] [0, 0, 0]
                     (TimeVector [10, 101/10, 51/5]) 1 True False False
                     (module_init example_ids))) = Inl KeyError"
    using unknown_label_raises [where clf = unknown_code_backend
        and x = "[0, 0, 0]" and y = "[0, 0, 0]" and time = "TimeVector [10, 101/10, 51/5]"
        and ta = "[10, 101/10, 51/5]" and px2deg = 1 and rd = True and ro = False
        and so = False and \<sigma> = "module_init example_ids",
        THEN conjunct2, THEN conjunct2, THEN conjunct1] h3
    by blast
  have c5: "Some ''None'' \<notin> set [Some ''Fixation'']"
    using unknown_label_raises [where clf = one_fixation_backend
        and x = "[0, 0, 0]" and y = "[0, 0, 0]" and time = "TimeVector [10, 101/10, 51/5]"
        and px2deg = 1 and rd = True and ro = True and so = False and ids = example_ids
        and rsegs = "[10]" and rclasses = "[Some ''Fixation'']"
        and rorig = "Some [\<lparr>start_time = 10, end_time = 51/5, label = ''FIXA''\<rparr>]",
        THEN conjunct2, THEN conjunct2, THEN conjunct2, THEN conjunct2]
      remodnav_example_run
    by blast
  have h4: "time_array (TimeVector [0, 1/2, 1]) (length [0, 0, 0 :: real]) = Inr [0, 1/2, 1]
      \<and> two_segment_backend [0, 1/2, 1] (zip [0, 0, 0] [0, 0, 0])
          = ([Some 1, Some 1, Some 2], Segmentation [Segment (0, 1), Segment (1, 1)],
             [Some 1, Some 2])
      \<and> fst (classify_nslr_hmm two_segment_backend [0, 0, 0] [0, 0, 0]
                (TimeVector [0, 1/2, 1]) True False (module_init example_ids))
          = Inr ([0, 1], [''Fixation'', ''Saccade''], None)"
    using nslr_example_run by (simp add: time_array_def two_segment_backend_def)
  have "\<exists>mapped. mapped = [Some 1, Some 2]
          \<and> length mapped = length [''Fixation'', ''Saccade'']
          \<and> (\<forall>i < length [''Fixation'', ''Saccade''].
                CLASSES (module_init example_ids) (mapped ! i)
                  = Some ([''Fixation'', ''Saccade''] ! i)
                \<and> ([''Fixation'', ''Saccade''] ! i = ''None'' \<longrightarrow> mapped ! i = None))"
    using unknown_label_raises [where classify_gaze = two_segment_backend
        and x = "[0, 0, 0]" and y = "[0, 0, 0]" and time = "TimeVector [0, 1/2, 1]"
        and ta = "[0, 1/2, 1]" and sample_class = "[Some 1, Some 1, Some 2]"
        and seg = "Segmentation [Segment (0, 1), Segment (1, 1)]"
        and seg_class = "[Some 1, Some 2]" and rd = True and ro = False
        and ids = example_ids and segs = "[0, 1]" and names = "[''Fixation'', ''Saccade'']"
        and orig = None,
        THEN conjunct2, THEN conjunct2, THEN conjunct2, THEN conjunct1] h4
    by simp
  then have c4: "CLASSES (module_init example_ids) ([Some 1, Some 2] ! 0)
                 = Some ([''Fixation'', ''Saccade''] ! 0)"
    by auto
  from c1 c2 c3 c4 c5 show ?thesis by blast
qed

subsection \<open>Determinism and the state between calls\<close>











end
